theory Spec2Isabelle
  imports Main
begin

section \<open>Reply text: the string operations of \<^verbatim>\<open>sendCommand\<close>\<close>

text \<open>
  The text of a chunk (\<^verbatim>\<open>data.toString()\<close>) is a \<^typ>\<open>string\<close>: the control
  protocol is ASCII, and each character stands for one code unit below 256.
\<close>

definition CR :: char where
  "CR = CHR 0x0D"

definition LF :: char where
  "LF = CHR 0x0A"

definition CRLF :: string where
  "CRLF = [CR, LF]"

definition DQUOTE :: char where
  "DQUOTE = CHR 0x22"

text \<open>\<^verbatim>\<open>s.substr(start)\<close> and \<^verbatim>\<open>s.substr(0, n)\<close> for non-negative arguments.\<close>

definition substr_from :: "string \<Rightarrow> nat \<Rightarrow> string" where
  "substr_from s start = drop start s"

definition substr_0 :: "string \<Rightarrow> nat \<Rightarrow> string" where
  "substr_0 s n = take n s"

definition starts_with :: "string \<Rightarrow> string \<Rightarrow> bool" where
  "starts_with p s = (take (length p) s = p)"

text \<open>\<^verbatim>\<open>/250 OK\r?\n/.test(data)\<close>: an unanchored search through the text.\<close>

fun re_250_OK_test :: "string \<Rightarrow> bool" where
  "re_250_OK_test [] = False"
| "re_250_OK_test (c # cs) =
     (starts_with (''250 OK'' @ [LF]) (c # cs)
      \<or> starts_with (''250 OK'' @ [CR, LF]) (c # cs)
      \<or> re_250_OK_test cs)"

text \<open>
  \<^verbatim>\<open>data.split(/\r?\n/)\<close>: the text is cut at every LF, and a CR directly before
  that LF belongs to the separator. The text after the last separator is an entry too,
  so a text that ends with a separator yields a last entry that is empty.
\<close>

fun cons_first :: "char \<Rightarrow> string list \<Rightarrow> string list" where
  "cons_first c [] = [[c]]"
| "cons_first c (l # ls) = (c # l) # ls"

fun split_newline :: "string \<Rightarrow> string list" where
  "split_newline [] = [[]]"
| "split_newline [c] = (if c = LF then [[], []] else [[c]])"
| "split_newline (c # d # cs) =
     (if c = CR \<and> d = LF then [] # split_newline cs
      else if c = LF then [] # split_newline (d # cs)
      else cons_first c (split_newline (d # cs)))"

text \<open>
  \<^verbatim>\<open>/^250./.test(line)\<close>: the line starts with 250 and has a fourth character; the
  dot of a regular expression matches no line terminator.
\<close>

definition re_250_dot_test :: "string \<Rightarrow> bool" where
  "re_250_dot_test l =
     (starts_with ''250'' l \<and>
      (case drop 3 l of [] \<Rightarrow> False | c # _ \<Rightarrow> c \<noteq> LF \<and> c \<noteq> CR))"

text \<open>Line 145: \<^verbatim>\<open>/^250./.test(arr[i]) ? arr[i].substr(4) : arr[i]\<close>.\<close>

definition message_of :: "string \<Rightarrow> string" where
  "message_of l = (if re_250_dot_test l then substr_from l 4 else l)"

text \<open>The loop of lines 143 to 148, with the index and the list it pushes to.\<close>

function collect_messages :: "string list \<Rightarrow> nat \<Rightarrow> string list \<Rightarrow> string list" where
  "collect_messages arr i messages =
     (if i < length arr
      then (if arr ! i \<noteq> ''''
            then collect_messages arr (i + 1) (messages @ [message_of (arr ! i)])
            else collect_messages arr (i + 1) messages)
      else messages)"
  by pat_completeness auto
termination
  by (relation "measure (\<lambda>(arr, i, messages). length arr - i)") auto

declare collect_messages.simps [simp del]

text \<open>
  \<^verbatim>\<open>parseInt(s, 10)\<close>: leading white space is skipped, one sign is read, then the
  longest run of decimal digits; no digit gives NaN, which is \<^term>\<open>None\<close> here.
  (A result of minus zero is the integer 0.)
\<close>

definition is_white_space :: "char \<Rightarrow> bool" where
  "is_white_space c =
     (c \<in> set [CHR 0x09, CHR 0x0A, CHR 0x0B, CHR 0x0C, CHR 0x0D, CHR 0x20, CHR 0xA0])"

definition is_digit :: "char \<Rightarrow> bool" where
  "is_digit c = (48 \<le> (of_char c :: nat) \<and> (of_char c :: nat) \<le> 57)"

definition digit_value :: "char \<Rightarrow> int" where
  "digit_value c = int (of_char c) - 48"

definition digits_value :: "string \<Rightarrow> int" where
  "digits_value z = foldl (\<lambda>a c. 10 * a + digit_value c) 0 z"

definition parseInt10 :: "string \<Rightarrow> int option" where
  "parseInt10 s =
     (let t = dropWhile is_white_space s;
          sign = (if starts_with ''-'' t then - 1 else 1);
          u = (if starts_with ''-'' t \<or> starts_with ''+'' t then drop 1 t else t);
          z = takeWhile is_digit u
      in if z = [] then None else Some (sign * digits_value z))"

text \<open>
  The two objects handed to the command callback: the status object of lines 149 to 153
  and the failure object of lines 155 to 159.
\<close>

datatype reply =
  Status int "string list" string
| Failure "int option" string string

datatype js_error = Error string

text \<open>Lines 139 to 159: the arguments \<^verbatim>\<open>(err, status)\<close> of the command callback.\<close>

definition parse_reply :: "string \<Rightarrow> js_error option \<times> reply" where
  "parse_reply d =
     (if re_250_OK_test d
      then (None, Status 250 (collect_messages (split_newline d) 0 []) d)
      else (Some (Error d), Failure (parseInt10 (substr_0 d 3)) (substr_from d 4) d))"

section \<open>Values, options and the session\<close>

text \<open>The values \<^verbatim>\<open>setPersistent\<close> and \<^verbatim>\<open>opts.persistent\<close> may hold, and \<^verbatim>\<open>!!v\<close>.\<close>

datatype jsval =
  JSUndefined | JSNull | JSBool bool | JSNum int | JSNaN | JSStr string | JSObject

fun ToBoolean :: "jsval \<Rightarrow> bool" where
  "ToBoolean JSUndefined = False"
| "ToBoolean JSNull = False"
| "ToBoolean (JSBool b) = b"
| "ToBoolean (JSNum n) = (n \<noteq> 0)"
| "ToBoolean JSNaN = False"
| "ToBoolean (JSStr s) = (s \<noteq> [])"
| "ToBoolean JSObject = True"

text \<open>
  The options object, with the documented types of its fields; \<^term>\<open>None\<close> is a
  property that is absent (it reads as \<^verbatim>\<open>undefined\<close>, and \<^verbatim>\<open>hasOwnProperty\<close>
  is false for it).
\<close>

record options =
  host :: "string option"
  port :: "int option"
  password :: "string option"
  path :: "string option"
  persistent :: "jsval option"

definition no_options :: options where
  "no_options = \<lparr>host = None, port = None, password = None, path = None, persistent = None\<rparr>"

text \<open>\<^verbatim>\<open>a || b\<close> on an optional string and on an optional number.\<close>

definition or_str :: "string option \<Rightarrow> string option \<Rightarrow> string option" where
  "or_str a b = (case a of Some (c # cs) \<Rightarrow> a | _ \<Rightarrow> b)"

definition or_num :: "int option \<Rightarrow> int option \<Rightarrow> int option" where
  "or_num a b = (case a of None \<Rightarrow> b | Some n \<Rightarrow> if n \<noteq> 0 then a else b)"

text \<open>The text an optional string contributes to a concatenation.\<close>

definition str_of :: "string option \<Rightarrow> string" where
  "str_of a = (case a of None \<Rightarrow> ''undefined'' | Some s \<Rightarrow> s)"

type_synonym handle = nat

text \<open>A function supplied by the caller is known by a number; calling it is recorded.\<close>

type_synonym cb_id = nat

text \<open>
  The functions the source itself passes as callbacks close over their variables:
  \<^item> the second argument of \<^verbatim>\<open>connect\<close> is the caller's function or the function of
    line 129, which holds \<^verbatim>\<open>command\<close>, \<^verbatim>\<open>cb\<close> and \<^verbatim>\<open>keepConnection\<close>;
  \<^item> the first argument of \<^verbatim>\<open>disconnect\<close> is the caller's function or the function of
    line 134, which holds \<^verbatim>\<open>data\<close> and \<^verbatim>\<open>cb\<close>.
\<close>

datatype connect_cb =
  UserConnectCb cb_id
| SendCommandCb string "cb_id option" bool

datatype disconnect_cb =
  UserDisconnectCb cb_id
| ReplyCb string "cb_id option"

text \<open>The listeners the source registers on a socket, by the line that creates them.\<close>

datatype listener =
  ConnectErrorListener "connect_cb option"   \<comment> \<open>line 60\<close>
| PipeDataListener                           \<comment> \<open>line 68\<close>
| PipeEndListener                            \<comment> \<open>line 71\<close>
| AuthDataListener connect_cb                \<comment> \<open>line 77\<close>
| DisconnectEndListener disconnect_cb        \<comment> \<open>line 98\<close>
| CommandDataListener "cb_id option" bool    \<comment> \<open>line 133\<close>

text \<open>
  A socket made by \<^verbatim>\<open>net.connect\<close>: where it connects to, the chunks written to it in
  order, whether \<^verbatim>\<open>end()\<close> was called, and its listeners per event in the order of their
  registration (the flag is true for \<^verbatim>\<open>once\<close>).
\<close>

record socket =
  target :: options
  written :: "string list"
  end_called :: bool
  data_listeners :: "(bool \<times> listener) list"
  end_listeners :: "(bool \<times> listener) list"
  error_listeners :: "(bool \<times> listener) list"

text \<open>
  What the outside sees: the events the session emits itself, and every call of a
  caller's function with its arguments and with the value \<^verbatim>\<open>this.connection\<close> has at
  the moment of the call.
\<close>

datatype call_args =
  ConnectArgs "js_error option" "handle option"
| DisconnectArgs
| CommandArgs "js_error option" "reply option"

datatype observation =
  EmittedData string
| EmittedEnd
| Called cb_id call_args "handle option"

record tor_control =
  opts :: options
  connection :: "handle option"
  sockets :: "socket list"
  trace :: "observation list"

datatype exn = TypeError | UnhandledError string

text \<open>The constructor, lines 20 to 35.\<close>

definition TorControl :: "options option \<Rightarrow> tor_control" where
  "TorControl given =
     (let o0 = (case given of None \<Rightarrow> no_options | Some x \<Rightarrow> x);
          o1 = (if path o0 = None
                then o0\<lparr>port := or_num (port o0) (Some 9051),
                        host := or_str (host o0) (Some ''localhost'')\<rparr>
                else o0);
          o2 = o1\<lparr>password := or_str (password o1) (Some [])\<rparr>;
          o3 = (if persistent o2 = None then o2\<lparr>persistent := Some (JSBool False)\<rparr> else o2)
      in \<lparr>opts = o3, connection = None, sockets = [], trace = []\<rparr>)"

text \<open>Lines 109 to 115.\<close>

definition isPersistent :: "tor_control \<Rightarrow> bool" where
  "isPersistent s = (case persistent (opts s) of None \<Rightarrow> False | Some v \<Rightarrow> ToBoolean v)"

definition setPersistent :: "jsval \<Rightarrow> tor_control \<Rightarrow> tor_control" where
  "setPersistent v s = s\<lparr>opts := (opts s)\<lparr>persistent := Some (JSBool (ToBoolean v))\<rparr>\<rparr>"

section \<open>Sockets and callbacks\<close>

definition update_socket :: "handle \<Rightarrow> (socket \<Rightarrow> socket) \<Rightarrow> tor_control \<Rightarrow> tor_control" where
  "update_socket h f s = s\<lparr>sockets := (sockets s)[h := f (sockets s ! h)]\<rparr>"

text \<open>\<^verbatim>\<open>socket.write(chunk)\<close>, \<^verbatim>\<open>socket.end()\<close> and \<^verbatim>\<open>socket.once(event, l)\<close>.\<close>

definition socket_write :: "handle \<Rightarrow> string \<Rightarrow> tor_control \<Rightarrow> tor_control" where
  "socket_write h chunk = update_socket h (\<lambda>k. k\<lparr>written := written k @ [chunk]\<rparr>)"

definition socket_end :: "handle \<Rightarrow> tor_control \<Rightarrow> tor_control" where
  "socket_end h = update_socket h (\<lambda>k. k\<lparr>end_called := True\<rparr>)"

definition once_data :: "handle \<Rightarrow> listener \<Rightarrow> tor_control \<Rightarrow> tor_control" where
  "once_data h l = update_socket h (\<lambda>k. k\<lparr>data_listeners := data_listeners k @ [(True, l)]\<rparr>)"

definition once_end :: "handle \<Rightarrow> listener \<Rightarrow> tor_control \<Rightarrow> tor_control" where
  "once_end h l = update_socket h (\<lambda>k. k\<lparr>end_listeners := end_listeners k @ [(True, l)]\<rparr>)"

definition observe :: "observation \<Rightarrow> tor_control \<Rightarrow> tor_control" where
  "observe x s = s\<lparr>trace := trace s @ [x]\<rparr>"

text \<open>Calling a function of the caller: the call is recorded with the connection it sees.\<close>

definition call_user :: "cb_id \<Rightarrow> call_args \<Rightarrow> tor_control \<Rightarrow> tor_control" where
  "call_user c args s = observe (Called c args (connection s)) s"

text \<open>
  The function of line 134 (lines 135 to 160): without \<^verbatim>\<open>cb\<close> it does nothing, with
  \<^verbatim>\<open>cb\<close> it parses the chunk and calls \<^verbatim>\<open>cb(err, status)\<close>.
\<close>

definition reply_cb :: "string \<Rightarrow> cb_id option \<Rightarrow> tor_control \<Rightarrow> tor_control" where
  "reply_cb d cb s =
     (case cb of
        None \<Rightarrow> s
      | Some c \<Rightarrow> call_user c (CommandArgs (fst (parse_reply d)) (Some (snd (parse_reply d)))) s)"

fun call_disconnect_cb :: "disconnect_cb \<Rightarrow> tor_control \<Rightarrow> tor_control" where
  "call_disconnect_cb (UserDisconnectCb c) s = call_user c DisconnectArgs s"
| "call_disconnect_cb (ReplyCb d cb) s = reply_cb d cb s"

text \<open>Lines 90 to 107.\<close>

definition disconnect :: "disconnect_cb option \<Rightarrow> bool \<Rightarrow> tor_control \<Rightarrow> tor_control" where
  "disconnect cb force s =
     (case connection s of
        None \<Rightarrow> (case cb of Some c \<Rightarrow> call_disconnect_cb c s | None \<Rightarrow> s)
      | Some h \<Rightarrow>
          (let s1 = (case cb of Some c \<Rightarrow> once_end h (DisconnectEndListener c) s | None \<Rightarrow> s)
           in if force then socket_end h s1
              else socket_write h (''QUIT'' @ CRLF) s1))"

text \<open>\<^verbatim>\<open>tryDisconnect\<close>, lines 123 to 128.\<close>

definition tryDisconnect :: "bool \<Rightarrow> disconnect_cb \<Rightarrow> tor_control \<Rightarrow> tor_control" where
  "tryDisconnect keepConnection callback s =
     (if keepConnection \<or> isPersistent s \<or> connection s = None
      then call_disconnect_cb callback s
      else disconnect (Some callback) False s)"

text \<open>
  Calling the second argument of \<^verbatim>\<open>connect\<close> with \<^verbatim>\<open>(err, connection)\<close>. For the
  function of line 129 these are lines 130 to 163: \<^verbatim>\<open>cb(err)\<close> is not guarded, and so
  is \<^verbatim>\<open>connection.once\<close>; each throws a TypeError when the value is missing.
\<close>

fun call_connect_cb ::
  "connect_cb \<Rightarrow> js_error option \<Rightarrow> handle option \<Rightarrow> tor_control \<Rightarrow> exn + tor_control" where
  "call_connect_cb (UserConnectCb c) err conn s = Inr (call_user c (ConnectArgs err conn) s)"
| "call_connect_cb (SendCommandCb command cb keepConnection) (Some e) conn s =
     (case cb of
        None \<Rightarrow> Inl TypeError
      | Some c \<Rightarrow> Inr (call_user c (CommandArgs (Some e) None) s))"
| "call_connect_cb (SendCommandCb command cb keepConnection) None None s = Inl TypeError"
| "call_connect_cb (SendCommandCb command cb keepConnection) None (Some h) s =
     Inr (socket_write h (command @ CRLF)
            (once_data h (CommandDataListener cb keepConnection) s))"

text \<open>
  Lines 48 to 55: the parameters \<^verbatim>\<open>net.connect\<close> gets. Without \<^verbatim>\<open>params\<close> the
  options object itself is used (and assigned to).
\<close>

definition resolve_params :: "options option \<Rightarrow> options \<Rightarrow> options" where
  "resolve_params params os =
     (let p = (case params of None \<Rightarrow> os | Some x \<Rightarrow> x)
      in if path p = None
         then (if path os \<noteq> None then p\<lparr>path := path os\<rparr>
               else p\<lparr>host := or_str (host p) (host os), port := or_num (port p) (port os)\<rparr>)
         else p)"

definition new_socket :: "options \<Rightarrow> socket" where
  "new_socket p = \<lparr>target = p, written = [], end_called = False,
                   data_listeners = [], end_listeners = [], error_listeners = []\<rparr>"

text \<open>Line 86: the text written first to a new socket.\<close>

definition authenticate_line :: "string option \<Rightarrow> string" where
  "authenticate_line pw = ''AUTHENTICATE '' @ [DQUOTE] @ str_of pw @ [DQUOTE] @ CRLF"

text \<open>Lines 37 to 88.\<close>

definition connect :: "options option \<Rightarrow> connect_cb option \<Rightarrow> tor_control \<Rightarrow> exn + tor_control" where
  "connect params cb s =
     (case connection s of
        Some h \<Rightarrow> (case cb of Some c \<Rightarrow> call_connect_cb c None (Some h) s | None \<Rightarrow> Inr s)
      | None \<Rightarrow>
          (let p = resolve_params params (opts s);
               os = (if params = None then p else opts s);
               h = length (sockets s);
               k = (new_socket p)
                     \<lparr>error_listeners := [(True, ConnectErrorListener cb)],
                      data_listeners := (False, PipeDataListener) #
                         (case cb of Some c \<Rightarrow> [(True, AuthDataListener c)] | None \<Rightarrow> []),
                      end_listeners := [(False, PipeEndListener)],
                      written := [authenticate_line (or_str (password p) (password os))]\<rparr>
           in Inr (s\<lparr>opts := os, connection := Some h, sockets := sockets s @ [k]\<rparr>)))"

text \<open>Lines 121 to 165.\<close>

definition sendCommand :: "string \<Rightarrow> cb_id option \<Rightarrow> bool \<Rightarrow> tor_control \<Rightarrow> exn + tor_control" where
  "sendCommand command cb keepConnection s =
     connect None (Some (SendCommandCb command cb keepConnection)) s"

section \<open>Events of a socket\<close>

text \<open>What each listener does when its event fires with the argument \<open>arg\<close>.\<close>

fun run_listener :: "listener \<Rightarrow> string \<Rightarrow> tor_control \<Rightarrow> exn + tor_control" where
  "run_listener (ConnectErrorListener cb) arg s =
     (case cb of
        None \<Rightarrow> Inr s
      | Some c \<Rightarrow>
          call_connect_cb c (Some (Error (''Error connecting to control port: '' @ arg))) None s)"
| "run_listener PipeDataListener arg s = Inr (observe (EmittedData arg) s)"
| "run_listener PipeEndListener arg s = Inr (observe EmittedEnd (s\<lparr>connection := None\<rparr>))"
| "run_listener (AuthDataListener c) arg s =
     (if substr_0 arg 3 = ''250''
      then call_connect_cb c None (connection s) s
      else call_connect_cb c
             (Some (Error (''Authentication failed with message: '' @ arg))) None s)"
| "run_listener (DisconnectEndListener c) arg s = Inr (call_disconnect_cb c s)"
| "run_listener (CommandDataListener cb keepConnection) arg s =
     Inr (tryDisconnect keepConnection (ReplyCb arg cb) s)"

text \<open>
  \<^verbatim>\<open>emit\<close>: the listeners registered when the event fires are called in the order of
  their registration, a \<^verbatim>\<open>once\<close> listener is unregistered before it runs, a listener
  added meanwhile waits for the next event, and an exception ends the emit.
\<close>

fun run_listeners :: "listener list \<Rightarrow> string \<Rightarrow> tor_control \<Rightarrow> exn + tor_control" where
  "run_listeners [] arg s = Inr s"
| "run_listeners (l # ls) arg s =
     (case run_listener l arg s of Inl e \<Rightarrow> Inl e | Inr s' \<Rightarrow> run_listeners ls arg s')"

definition keep_on :: "(bool \<times> listener) list \<Rightarrow> (bool \<times> listener) list" where
  "keep_on ls = filter (\<lambda>x. \<not> fst x) ls"

text \<open>
  The events the transport delivers and the calls of the caller. An event names its
  socket; for a handle that was never made nothing happens. An error event without a
  listener is thrown.
\<close>

datatype action =
  Connect "options option" "cb_id option"
| Disconnect "cb_id option" bool
| SetPersistent jsval
| SendCommand string "cb_id option" bool
| SocketData handle string
| SocketEnd handle
| SocketError handle string

fun step :: "action \<Rightarrow> tor_control \<Rightarrow> exn + tor_control" where
  "step (Connect params cb) s = connect params (map_option UserConnectCb cb) s"
| "step (Disconnect cb force) s = Inr (disconnect (map_option UserDisconnectCb cb) force s)"
| "step (SetPersistent v) s = Inr (setPersistent v s)"
| "step (SendCommand command cb keepConnection) s = sendCommand command cb keepConnection s"
| "step (SocketData h d) s =
     (if h < length (sockets s)
      then run_listeners (map snd (data_listeners (sockets s ! h))) d
             (update_socket h (\<lambda>k. k\<lparr>data_listeners := keep_on (data_listeners k)\<rparr>) s)
      else Inr s)"
| "step (SocketEnd h) s =
     (if h < length (sockets s)
      then run_listeners (map snd (end_listeners (sockets s ! h))) []
             (update_socket h (\<lambda>k. k\<lparr>end_listeners := keep_on (end_listeners k)\<rparr>) s)
      else Inr s)"
| "step (SocketError h e) s =
     (if h < length (sockets s)
      then (if error_listeners (sockets s ! h) = [] then Inl (UnhandledError e)
            else run_listeners (map snd (error_listeners (sockets s ! h))) e
                   (update_socket h (\<lambda>k. k\<lparr>error_listeners := keep_on (error_listeners k)\<rparr>) s))
      else Inr s)"

fun run :: "action list \<Rightarrow> tor_control \<Rightarrow> exn + tor_control" where
  "run [] s = Inr s"
| "run (a # as) s = (case step a s of Inl e \<Rightarrow> Inl e | Inr s' \<Rightarrow> run as s')"

text \<open>The calls of the caller's functions in a trace, in order, with their arguments.\<close>

fun delivered :: "observation list \<Rightarrow> (cb_id \<times> call_args) list" where
  "delivered [] = []"
| "delivered (EmittedData d # xs) = delivered xs"
| "delivered (EmittedEnd # xs) = delivered xs"
| "delivered (Called c args conn # xs) = (c, args) # delivered xs"

section \<open>The specification's reading of a reply\<close>

text \<open>
  The final line of a reply, and the messages the specification describes: every line
  that is not empty, without its first four characters.
\<close>

definition final_line :: "string \<Rightarrow> string option" where
  "final_line d =
     (case filter (\<lambda>l. l \<noteq> []) (split_newline d) of [] \<Rightarrow> None | l # ls \<Rightarrow> Some (last (l # ls)))"

definition spec_messages :: "string \<Rightarrow> string list" where
  "spec_messages d = map (drop 4) (filter (\<lambda>l. l \<noteq> []) (split_newline d))"

section \<open>A session used as an example\<close>

text \<open>
  The default session after one command that kept its connection: the connection is
  installed and authenticated, and no command is pending.
\<close>

definition kept_session :: tor_control where
  "kept_session =
     projr (run [SendCommand ''SIGNAL NEWNYM'' (Some 1) True, SocketData 0 (''250 OK'' @ CRLF),
                 SocketData 0 (''250 OK'' @ CRLF)] (TorControl None))"

section \<open>Facts about the string operations\<close>

lemma starts_with_iff: "starts_with p s = (\<exists>post. s = p @ post)"
  unfolding starts_with_def
  by (metis append_eq_conv_conj append_take_drop_id)

lemma re_250_OK_test_append:
  "re_250_OK_test (pre @ ''250 OK'' @ [LF] @ post)"
  "re_250_OK_test (pre @ ''250 OK'' @ [CR, LF] @ post)"
  by (induction pre) (simp_all add: starts_with_def)

lemma re_250_OK_test_imp:
  "re_250_OK_test d \<Longrightarrow>
     \<exists>pre post. d = pre @ ''250 OK'' @ [LF] @ post \<or> d = pre @ ''250 OK'' @ [CR, LF] @ post"
proof (induction d)
  case Nil
  then show ?case by simp
next
  case (Cons c cs)
  consider (a) "starts_with (''250 OK'' @ [LF]) (c # cs)"
    | (b) "starts_with (''250 OK'' @ [CR, LF]) (c # cs)"
    | (c) "re_250_OK_test cs"
    using Cons.prems by auto
  then show ?case
  proof cases
    case a
    then obtain post where "c # cs = (''250 OK'' @ [LF]) @ post"
      unfolding starts_with_iff by blast
    then have "c # cs = [] @ ''250 OK'' @ [LF] @ post" by simp
    then show ?thesis by blast
  next
    case b
    then obtain post where "c # cs = (''250 OK'' @ [CR, LF]) @ post"
      unfolding starts_with_iff by blast
    then have "c # cs = [] @ ''250 OK'' @ [CR, LF] @ post" by simp
    then show ?thesis by blast
  next
    case c
    then obtain pre post where
      "cs = pre @ ''250 OK'' @ [LF] @ post \<or> cs = pre @ ''250 OK'' @ [CR, LF] @ post"
      using Cons.IH by blast
    then have "c # cs = (c # pre) @ ''250 OK'' @ [LF] @ post
               \<or> c # cs = (c # pre) @ ''250 OK'' @ [CR, LF] @ post"
      by simp
    then show ?thesis by blast
  qed
qed

text \<open>The loop pushes, in order, the message of every entry that is not empty.\<close>

lemma collect_messages_eq:
  "collect_messages arr i ms = ms @ map message_of (filter (\<lambda>l. l \<noteq> []) (drop i arr))"
proof (induction arr i ms rule: collect_messages.induct)
  case (1 arr i messages)
  show ?case
  proof (cases "i < length arr")
    case True
    then have d: "drop i arr = arr ! i # drop (Suc i) arr"
      by (simp add: Cons_nth_drop_Suc)
    show ?thesis
      using True 1 d by (subst collect_messages.simps) simp
  next
    case False
    then show ?thesis by (subst collect_messages.simps) simp
  qed
qed

text \<open>
  Splitting a text made of lines that each end in CR LF gives back the lines, and a last
  entry that is empty.
\<close>

lemma split_newline_line:
  "LF \<notin> set l \<Longrightarrow> split_newline (l @ CR # LF # rest) = l # split_newline rest"
proof (induction l rule: split_newline.induct)
  case 1
  then show ?case by (simp add: CR_def LF_def)
next
  case (2 c)
  then show ?case by (simp add: CR_def LF_def)
next
  case (3 c d cs)
  then show ?case by auto
qed

lemma split_newline_lines:
  "\<forall>l \<in> set ls. LF \<notin> set l \<Longrightarrow>
     split_newline (concat (map (\<lambda>l. l @ CRLF) ls)) = ls @ [[]]"
  by (induction ls) (simp_all add: CRLF_def split_newline_line)

lemma parseInt10_three_digits:
  assumes "is_digit a" "is_digit b" "is_digit k"
  shows "parseInt10 [a, b, k] = Some (100 * digit_value a + 10 * digit_value b + digit_value k)"
proof -
  have ws: "\<not> is_white_space a"
    using assms(1) by (auto simp: is_white_space_def is_digit_def)
  have sg: "\<not> starts_with ''-'' [a, b, k]" "\<not> starts_with ''+'' [a, b, k]"
    using assms(1) by (auto simp: starts_with_def is_digit_def)
  show ?thesis
    using assms ws sg by (simp add: parseInt10_def digits_value_def)
qed

lemma parseInt10_no_digit:
  assumes "\<forall>c \<in> set s. \<not> is_digit c"
  shows "parseInt10 s = None"
proof -
  have "takeWhile is_digit u = []" if "set u \<subseteq> set s" for u
    using that assms by (cases u) auto
  moreover have "set (dropWhile is_white_space s) \<subseteq> set s"
    by (simp add: set_dropWhileD subsetI)
  moreover have "set (drop 1 (dropWhile is_white_space s)) \<subseteq> set s"
    by (meson in_set_dropD set_dropWhileD subsetI)
  ultimately show ?thesis
    by (simp add: parseInt10_def Let_def)
qed

section \<open>Facts about the session\<close>

lemma or_str_same: "or_str a a = a"
  by (simp add: or_str_def split: option.splits list.splits)

lemma or_num_same: "or_num a a = a"
  by (simp add: or_num_def split: option.splits)

text \<open>Without \<^verbatim>\<open>params\<close> the assignments of lines 50 to 53 change nothing.\<close>

lemma resolve_params_None: "resolve_params None os = os"
  by (simp add: resolve_params_def Let_def or_str_same or_num_same)

lemma TorControl_closed [simp]:
  "connection (TorControl g) = None" "sockets (TorControl g) = []" "trace (TorControl g) = []"
  by (simp_all add: TorControl_def Let_def)

lemmas model_defs = sendCommand_def connect_def resolve_params_None or_str_same Let_def
  new_socket_def update_socket_def socket_write_def once_data_def once_end_def socket_end_def
  observe_def call_user_def reply_cb_def disconnect_def tryDisconnect_def keep_on_def
  substr_0_def isPersistent_def

lemmas parse_defs = parse_reply_def starts_with_def CRLF_def CR_def LF_def DQUOTE_def
  collect_messages_eq message_of_def re_250_dot_test_def substr_from_def
  parseInt10_def is_white_space_def is_digit_def digits_value_def digit_value_def

text \<open>Runs: a run in two parts, and the calls recorded in a trace.\<close>

lemma run_append:
  "run (as @ bs) s = (case run as s of Inl e \<Rightarrow> Inl e | Inr s' \<Rightarrow> run bs s')"
  by (induction as arbitrary: s) (auto split: sum.splits)

lemma delivered_append: "delivered (xs @ ys) = delivered xs @ delivered ys"
  by (induction xs rule: delivered.induct) simp_all

lemma delivered_EmittedData: "delivered (map EmittedData ds) = []"
  by (induction ds) simp_all

text \<open>
  A command on a closed session whose authentication succeeds, up to its reply chunk:
  first when the connection is kept, then when it is closed.
\<close>

lemma reply_kept:
  assumes "connection s = None" "take 3 auth = ''250''" "keep \<or> isPersistent s"
  shows "\<exists>s'. run [SendCommand cmd (Some c) keep, SocketData (length (sockets s)) auth,
                   SocketData (length (sockets s)) d] s = Inr s'
           \<and> opts s' = opts s
           \<and> connection s' = Some (length (sockets s))
           \<and> length (sockets s') = Suc (length (sockets s))
           \<and> written (sockets s' ! length (sockets s)) =
               [authenticate_line (password (opts s)), cmd @ CRLF]
           \<and> data_listeners (sockets s' ! length (sockets s)) = [(False, PipeDataListener)]
           \<and> end_listeners (sockets s' ! length (sockets s)) = [(False, PipeEndListener)]
           \<and> trace s' = trace s @
               [EmittedData auth, EmittedData d,
                Called c (CommandArgs (fst (parse_reply d)) (Some (snd (parse_reply d))))
                  (Some (length (sockets s)))]"
  using assms by (auto simp add: model_defs)

lemma reply_closing:
  assumes "connection s = None" "take 3 auth = ''250''" "\<not> keep" "\<not> isPersistent s"
  shows "\<exists>s'. run [SendCommand cmd (Some c) keep, SocketData (length (sockets s)) auth,
                   SocketData (length (sockets s)) d] s = Inr s'
           \<and> opts s' = opts s
           \<and> connection s' = Some (length (sockets s))
           \<and> length (sockets s') = Suc (length (sockets s))
           \<and> written (sockets s' ! length (sockets s)) =
               [authenticate_line (password (opts s)), cmd @ CRLF, ''QUIT'' @ CRLF]
           \<and> data_listeners (sockets s' ! length (sockets s)) = [(False, PipeDataListener)]
           \<and> end_listeners (sockets s' ! length (sockets s)) =
               [(False, PipeEndListener), (True, DisconnectEndListener (ReplyCb d (Some c)))]
           \<and> trace s' = trace s @ [EmittedData auth, EmittedData d]"
  using assms by (simp add: model_defs)

text \<open>A socket with only the forwarding listener passes every chunk on, and no more.\<close>

lemma more_chunks:
  assumes "h < length (sockets s)" "data_listeners (sockets s ! h) = [(False, PipeDataListener)]"
  shows "run (map (SocketData h) ds) s = Inr (s\<lparr>trace := trace s @ map EmittedData ds\<rparr>)"
  using assms
proof (induction ds arbitrary: s)
  case Nil
  then show ?case by simp
next
  case (Cons d ds)
  let ?s1 = "s\<lparr>trace := trace s @ [EmittedData d]\<rparr>"
  have st: "step (SocketData h d) s = Inr ?s1"
  proof -
    have k: "(sockets s ! h)\<lparr>data_listeners := [(False, PipeDataListener)]\<rparr> = sockets s ! h"
      by (simp add: Cons.prems(2) [symmetric])
    show ?thesis
      by (simp add: model_defs Cons.prems k)
  qed
  have "run (map (SocketData h) ds) ?s1 = Inr (?s1\<lparr>trace := trace ?s1 @ map EmittedData ds\<rparr>)"
    using Cons.prems by (intro Cons.IH) simp_all
  then show ?case
    using st by simp
qed

text \<open>The end of the stream, without and with a pending \<^verbatim>\<open>disconnect\<close> callback.\<close>

lemma end_kept:
  assumes "h < length (sockets s)" "end_listeners (sockets s ! h) = [(False, PipeEndListener)]"
  shows "\<exists>s'. step (SocketEnd h) s = Inr s' \<and> connection s' = None
               \<and> trace s' = trace s @ [EmittedEnd]"
  using assms by (simp add: model_defs)

lemma end_closing:
  assumes "h < length (sockets s)"
    "end_listeners (sockets s ! h) =
       [(False, PipeEndListener), (True, DisconnectEndListener (ReplyCb d (Some c)))]"
  shows "\<exists>s'. step (SocketEnd h) s = Inr s' \<and> connection s' = None
               \<and> trace s' = trace s @
                   [EmittedEnd,
                    Called c (CommandArgs (fst (parse_reply d)) (Some (snd (parse_reply d)))) None]"
  using assms by (simp add: model_defs)

text \<open>
  The whole exchange: whatever chunks follow the first one after the command, the
  callback is called once, with what \<^const>\<open>parse_reply\<close> makes of that first chunk.
\<close>

lemma command_result:
  assumes "connection s = None" "take 3 auth = ''250''"
  shows "\<exists>s'. run ([SendCommand cmd (Some c) keep, SocketData (length (sockets s)) auth,
                    SocketData (length (sockets s)) d]
                   @ map (SocketData (length (sockets s))) ds
                   @ [SocketEnd (length (sockets s))]) s = Inr s'
           \<and> connection s' = None
           \<and> delivered (trace s') = delivered (trace s) @
               [(c, CommandArgs (fst (parse_reply d)) (Some (snd (parse_reply d))))]"
proof -
  let ?h = "length (sockets s)"
  let ?first = "[SendCommand cmd (Some c) keep, SocketData ?h auth, SocketData ?h d]"
  have "\<exists>s3. run ?first s = Inr s3 \<and> length (sockets s3) = Suc ?h
          \<and> data_listeners (sockets s3 ! ?h) = [(False, PipeDataListener)]
          \<and> (\<exists>s5. step (SocketEnd ?h) (s3\<lparr>trace := trace s3 @ map EmittedData ds\<rparr>) = Inr s5
                \<and> connection s5 = None
                \<and> delivered (trace s5) = delivered (trace s) @
                    [(c, CommandArgs (fst (parse_reply d)) (Some (snd (parse_reply d))))])"
  proof (cases "keep \<or> isPersistent s")
    case True
    from reply_kept [OF assms True, of cmd c d] obtain s3 where
      r: "run ?first s = Inr s3" and l: "length (sockets s3) = Suc ?h"
      and dl: "data_listeners (sockets s3 ! ?h) = [(False, PipeDataListener)]"
      and el: "end_listeners (sockets s3 ! ?h) = [(False, PipeEndListener)]"
      and t: "trace s3 = trace s @
               [EmittedData auth, EmittedData d,
                Called c (CommandArgs (fst (parse_reply d)) (Some (snd (parse_reply d)))) (Some ?h)]"
      by blast
    let ?s4 = "s3\<lparr>trace := trace s3 @ map EmittedData ds\<rparr>"
    from end_kept [of ?h ?s4] l el obtain s5 where
      "step (SocketEnd ?h) ?s4 = Inr s5" "connection s5 = None" "trace s5 = trace ?s4 @ [EmittedEnd]"
      by auto
    then show ?thesis
      using r l dl t by (simp add: delivered_append delivered_EmittedData)
  next
    case False
    then have nk: "\<not> keep" and np: "\<not> isPersistent s" by simp_all
    from reply_closing [OF assms nk np, of cmd c d] obtain s3 where
      r: "run ?first s = Inr s3" and l: "length (sockets s3) = Suc ?h"
      and dl: "data_listeners (sockets s3 ! ?h) = [(False, PipeDataListener)]"
      and el: "end_listeners (sockets s3 ! ?h) =
                 [(False, PipeEndListener), (True, DisconnectEndListener (ReplyCb d (Some c)))]"
      and t: "trace s3 = trace s @ [EmittedData auth, EmittedData d]"
      by blast
    let ?s4 = "s3\<lparr>trace := trace s3 @ map EmittedData ds\<rparr>"
    from end_closing [of ?h ?s4 d c] l el obtain s5 where
      "step (SocketEnd ?h) ?s4 = Inr s5" "connection s5 = None"
      "trace s5 = trace ?s4 @
         [EmittedEnd, Called c (CommandArgs (fst (parse_reply d)) (Some (snd (parse_reply d)))) None]"
      by auto
    then show ?thesis
      using r l dl t by (simp add: delivered_append delivered_EmittedData)
  qed
  then obtain s3 s5 where
    r: "run ?first s = Inr s3" and l: "?h < length (sockets s3)"
    and dl: "data_listeners (sockets s3 ! ?h) = [(False, PipeDataListener)]"
    and e: "step (SocketEnd ?h) (s3\<lparr>trace := trace s3 @ map EmittedData ds\<rparr>) = Inr s5"
    and c5: "connection s5 = None"
    and d5: "delivered (trace s5) = delivered (trace s) @
               [(c, CommandArgs (fst (parse_reply d)) (Some (snd (parse_reply d))))]"
    by auto
  have m: "run (map (SocketData ?h) ds) s3 = Inr (s3\<lparr>trace := trace s3 @ map EmittedData ds\<rparr>)"
    using l dl by (rule more_chunks)
  have a: "run (?first @ rest) s = run rest s3" for rest
    using r by (simp only: run_append sum.case)
  have b: "run (map (SocketData ?h) ds @ [SocketEnd ?h]) s3 = Inr s5"
    by (simp only: run_append m sum.case run.simps e)
  have "run (?first @ map (SocketData ?h) ds @ [SocketEnd ?h]) s = Inr s5"
    by (simp only: a b)
  then show ?thesis
    using c5 d5 by blast
qed

text \<open>Concrete values used below.\<close>

lemma parse_reply_bare_OK:
  "parse_reply (''250 OK'' @ CRLF) = (None, Status 250 [''OK''] (''250 OK'' @ CRLF))"
  by (simp add: parse_reply_def starts_with_def CRLF_def CR_def LF_def collect_messages_eq
      message_of_def re_250_dot_test_def substr_from_def)

lemma TorControl_None_opts:
  "opts (TorControl None) =
     \<lparr>host = Some ''localhost'', port = Some 9051, password = Some [], path = None,
      persistent = Some (JSBool False)\<rparr>"
  by (simp add: TorControl_def no_options_def or_str_def or_num_def)

lemma closed: "connection (TorControl None) = None"
  by simp

lemma ok_chunk: "take 3 (''250 OK'' @ CRLF) = ''250''"
  by simp

lemma bad_chunk:
  "take 3 (''515 Bad authentication'' @ CRLF) \<noteq> ''250''"
  "\<not> re_250_OK_test (''515 Bad authentication'' @ CRLF)"
  "parseInt10 (take 3 (''515 Bad authentication'' @ CRLF)) = Some 515"
  "drop 4 (''515 Bad authentication'' @ CRLF) = ''Bad authentication'' @ CRLF"
  by (simp_all add: parse_defs)

lemma default_authenticate_line:
  "authenticate_line (password (opts (TorControl None))) =
     ''AUTHENTICATE '' @ [DQUOTE, DQUOTE] @ CRLF"
  by (simp add: authenticate_line_def str_of_def TorControl_None_opts)

lemmas witness_simps = TorControl_closed list.size delivered.simps(1) append_Nil simp_thms
  if_True if_False fst_conv snd_conv ok_chunk default_authenticate_line

section \<open>The persistent flag\<close>

text \<open>
  C10. For every value \<open>v\<close>, boolean or not, \<^verbatim>\<open>setPersistent(v)\<close> stores the boolean
  coercion of \<open>v\<close>, a following \<^verbatim>\<open>isPersistent()\<close> returns that boolean, and the
  endpoint, the password, the connection, the sockets and the trace stay as they were.
\<close>

theorem setPersistent_frame:
  "persistent (opts (setPersistent v s)) = Some (JSBool (ToBoolean v))
   \<and> isPersistent (setPersistent v s) = ToBoolean v
   \<and> host (opts (setPersistent v s)) = host (opts s)
   \<and> port (opts (setPersistent v s)) = port (opts s)
   \<and> path (opts (setPersistent v s)) = path (opts s)
   \<and> password (opts (setPersistent v s)) = password (opts s)
   \<and> connection (setPersistent v s) = connection s
   \<and> sockets (setPersistent v s) = sockets s
   \<and> trace (setPersistent v s) = trace s"
  by (simp add: setPersistent_def isPersistent_def)

section \<open>Opening a session that is open\<close>

text \<open>
  C8. When a connection is installed, \<^verbatim>\<open>connect\<close> hands that connection to the
  callback at once (and does nothing without a callback): no socket is made, nothing is
  written, and options, connection and sockets are unchanged.
\<close>

theorem connect_when_open:
  assumes "connection s = Some h"
  shows "step (Connect params None) s = Inr s
         \<and> step (Connect params (Some c)) s =
             Inr (s\<lparr>trace := trace s @ [Called c (ConnectArgs None (Some h)) (Some h)]\<rparr>)"
  using assms by (simp add: connect_def call_user_def observe_def)

theorem connect_when_open_witness:
  "connection (projr (run [Connect None (Some 7), SocketData 0 (''250 OK'' @ CRLF)]
                        (TorControl None))) = Some 0
   \<and> step (Connect None (Some 8))
        (projr (run [Connect None (Some 7), SocketData 0 (''250 OK'' @ CRLF)] (TorControl None)))
     = Inr ((projr (run [Connect None (Some 7), SocketData 0 (''250 OK'' @ CRLF)] (TorControl None)))
            \<lparr>trace := [EmittedData (''250 OK'' @ CRLF), Called 7 (ConnectArgs None (Some 0)) (Some 0),
                       Called 8 (ConnectArgs None (Some 0)) (Some 0)]\<rparr>)"
proof -
  let ?s = "projr (run [Connect None (Some 7), SocketData 0 (''250 OK'' @ CRLF)] (TorControl None))"
  have c: "connection ?s = Some 0"
    by (simp add: model_defs)
  have t: "trace ?s = [EmittedData (''250 OK'' @ CRLF), Called 7 (ConnectArgs None (Some 0)) (Some 0)]"
    by (simp add: model_defs)
  show ?thesis
    using connect_when_open [OF c, of None 8] c t by simp
qed

section \<open>A command without a callback\<close>

text \<open>
  C9. When \<^verbatim>\<open>sendCommand\<close> is called without a callback on a closed session and the
  connection attempt fails (an error event of the socket, or a first chunk that does not
  start with 250), the unguarded \<^verbatim>\<open>cb(err)\<close> of line 131 throws a TypeError and nothing
  is reported; with a callback the error is handed to it.
\<close>

theorem sendCommand_without_callback:
  assumes "connection s = None"
  shows "run [SendCommand cmd None keep, SocketError (length (sockets s)) e] s = Inl TypeError
         \<and> (take 3 d \<noteq> ''250'' \<longrightarrow>
              run [SendCommand cmd None keep, SocketData (length (sockets s)) d] s = Inl TypeError)
         \<and> (\<exists>s'. run [SendCommand cmd (Some c) keep, SocketError (length (sockets s)) e] s = Inr s'
                \<and> trace s' = trace s @
                    [Called c (CommandArgs (Some (Error (''Error connecting to control port: '' @ e))) None)
                       (Some (length (sockets s)))])"
  using assms by (simp add: model_defs)

theorem sendCommand_without_callback_witness:
  "connection (TorControl None) = None
   \<and> take 3 (''515 Bad authentication'' @ CRLF) \<noteq> ''250''
   \<and> run [SendCommand ''SIGNAL NEWNYM'' None False, SocketError 0 ''ECONNREFUSED''] (TorControl None)
       = Inl TypeError
   \<and> run [SendCommand ''SIGNAL NEWNYM'' None False,
           SocketData 0 (''515 Bad authentication'' @ CRLF)] (TorControl None)
       = Inl TypeError
   \<and> (\<exists>s'. run [SendCommand ''SIGNAL NEWNYM'' (Some 1) False, SocketError 0 ''ECONNREFUSED'']
              (TorControl None) = Inr s'
          \<and> trace s' =
              [Called 1 (CommandArgs
                 (Some (Error ''Error connecting to control port: ECONNREFUSED'')) None) (Some 0)])"
proof -
  have c: "connection (TorControl None) = None"
    by simp
  have l: "sockets (TorControl None) = []" "trace (TorControl None) = []"
    by simp_all
  have d: "take 3 (''515 Bad authentication'' @ CRLF) \<noteq> ''250''"
    by simp
  show ?thesis
    using sendCommand_without_callback
            [OF c, of "''SIGNAL NEWNYM''" False "''ECONNREFUSED''"
                      "''515 Bad authentication'' @ CRLF" 1] c l d
    by simp
qed

section \<open>Classifying a reply\<close>

text \<open>
  C1 (as amended). For every dispatched command the callback gets what
  \<^const>\<open>parse_reply\<close> makes of the reply chunk, and that is a success exactly when the
  text contains \<open>250 OK\<close> directly followed by LF or by CR LF, wherever in the text
  that is; every other chunk is reported as an error with the failure object.
\<close>

theorem success_iff_250_OK_newline:
  assumes "connection s = None" "take 3 auth = ''250''"
  shows "(\<exists>s'. run [SendCommand cmd (Some c) keep, SocketData (length (sockets s)) auth,
                   SocketData (length (sockets s)) d, SocketEnd (length (sockets s))] s = Inr s'
            \<and> delivered (trace s') = delivered (trace s) @
                [(c, CommandArgs (fst (parse_reply d)) (Some (snd (parse_reply d))))])
       \<and> (fst (parse_reply d) = None) =
           (\<exists>pre post. d = pre @ ''250 OK'' @ [LF] @ post \<or> d = pre @ ''250 OK'' @ [CR, LF] @ post)
       \<and> (\<exists>ms. snd (parse_reply d) = Status 250 ms d) =
           (\<exists>pre post. d = pre @ ''250 OK'' @ [LF] @ post \<or> d = pre @ ''250 OK'' @ [CR, LF] @ post)
       \<and> (\<exists>k m. parse_reply d = (Some (Error d), Failure k m d)) =
           (\<not> (\<exists>pre post. d = pre @ ''250 OK'' @ [LF] @ post \<or> d = pre @ ''250 OK'' @ [CR, LF] @ post))"
proof -
  have iff: "re_250_OK_test d =
      (\<exists>pre post. d = pre @ ''250 OK'' @ [LF] @ post \<or> d = pre @ ''250 OK'' @ [CR, LF] @ post)"
    using re_250_OK_test_imp [of d] re_250_OK_test_append by blast
  have run: "\<exists>s'. run [SendCommand cmd (Some c) keep, SocketData (length (sockets s)) auth,
                   SocketData (length (sockets s)) d, SocketEnd (length (sockets s))] s = Inr s'
            \<and> delivered (trace s') = delivered (trace s) @
                [(c, CommandArgs (fst (parse_reply d)) (Some (snd (parse_reply d))))]"
    using command_result [OF assms, of cmd c keep d "[]"] by auto
  have p1: "(fst (parse_reply d) = None) = re_250_OK_test d"
    by (simp add: parse_reply_def)
  have p2: "(\<exists>ms. snd (parse_reply d) = Status 250 ms d) = re_250_OK_test d"
    by (simp add: parse_reply_def)
  have p3: "(\<exists>k m. parse_reply d = (Some (Error d), Failure k m d)) = (\<not> re_250_OK_test d)"
    by (simp add: parse_reply_def)
  show ?thesis
    unfolding p1 p2 p3 iff [symmetric] using run by simp
qed

theorem success_iff_250_OK_newline_witness:
  "connection (TorControl None) = None
   \<and> take 3 (''250 OK'' @ CRLF) = ''250''
   \<and> (\<exists>s'. run [SendCommand ''GETINFO x'' (Some 1) True, SocketData 0 (''250 OK'' @ CRLF),
                 SocketData 0 (''552 250 OK'' @ CRLF), SocketEnd 0] (TorControl None) = Inr s'
         \<and> delivered (trace s') =
             [(1, CommandArgs None (Some (Status 250 [''552 250 OK''] (''552 250 OK'' @ CRLF))))])"
proof -
  have ex: "\<exists>pre post. ''552 250 OK'' @ CRLF = pre @ ''250 OK'' @ [LF] @ post
                      \<or> ''552 250 OK'' @ CRLF = pre @ ''250 OK'' @ [CR, LF] @ post"
    by (rule exI [of _ "''552 ''"], rule exI [of _ "[]"]) (simp add: CRLF_def)
  have pr: "parse_reply (''552 250 OK'' @ CRLF) =
              (None, Status 250 [''552 250 OK''] (''552 250 OK'' @ CRLF))"
    by (simp add: parse_defs)
  show ?thesis
    using success_iff_250_OK_newline [where s = "TorControl None" and auth = "''250 OK'' @ CRLF"
        and d = "''552 250 OK'' @ CRLF" and cmd = "''GETINFO x''" and c = 1 and keep = True,
        OF closed ok_chunk]
    by (simp only: witness_simps ex pr reply.inject prod.inject option.distinct)
qed

text \<open>
  The claim as stated fails: the reply whose only line is \<open>552 250 OK\<close> has a final
  line with another code, and is reported as a success with code 250.
\<close>

theorem embedded_250_OK_counterexample:
  "final_line (''552 250 OK'' @ CRLF) = Some ''552 250 OK''
   \<and> delivered (trace (projr (run
        [SendCommand ''GETINFO x'' (Some 1) True, SocketData 0 (''250 OK'' @ CRLF),
         SocketData 0 (''552 250 OK'' @ CRLF)] (TorControl None)))) =
       [(1, CommandArgs None (Some (Status 250 [''552 250 OK''] (''552 250 OK'' @ CRLF))))]"
  by (simp add: final_line_def model_defs parse_defs)

section \<open>The messages of a successful reply\<close>

text \<open>
  C2 (as amended). For every successful reply the messages are the lines of the text
  (cut at LF or CR LF) that are not empty, in their order; the first four characters are
  removed from a line that starts with \<open>250\<close> and has a fourth character other than
  CR and LF, and every other line is kept whole. A bare \<open>250 OK\<close> gives the one
  message \<open>OK\<close> (the instance proved after the theorem).
\<close>

theorem messages_of_success:
  assumes "connection s = None" "take 3 auth = ''250''" "re_250_OK_test d"
  shows "\<exists>s'. run [SendCommand cmd (Some c) keep, SocketData (length (sockets s)) auth,
                   SocketData (length (sockets s)) d, SocketEnd (length (sockets s))] s = Inr s'
           \<and> delivered (trace s') = delivered (trace s) @
               [(c, CommandArgs None (Some (Status 250
                  (map (\<lambda>l. if take 3 l = ''250'' \<and> 3 < length l \<and> l ! 3 \<noteq> CR \<and> l ! 3 \<noteq> LF
                             then drop 4 l else l)
                       (filter (\<lambda>l. l \<noteq> []) (split_newline d)))
                  d)))]"
proof -
  have m: "message_of l =
      (if take 3 l = ''250'' \<and> 3 < length l \<and> l ! 3 \<noteq> CR \<and> l ! 3 \<noteq> LF then drop 4 l else l)" for l
  proof (cases "3 < length l")
    case True
    then have "drop 3 l = l ! 3 # drop 4 l"
      using Cons_nth_drop_Suc [of 3 l] by (simp add: eval_nat_numeral)
    then show ?thesis
      using True
      by (simp add: message_of_def re_250_dot_test_def starts_with_def substr_from_def
          numeral_3_eq_3)
  next
    case False
    then show ?thesis
      by (simp add: message_of_def re_250_dot_test_def)
  qed
  have "parse_reply d = (None, Status 250
          (map (\<lambda>l. if take 3 l = ''250'' \<and> 3 < length l \<and> l ! 3 \<noteq> CR \<and> l ! 3 \<noteq> LF
                     then drop 4 l else l)
               (filter (\<lambda>l. l \<noteq> []) (split_newline d))) d)"
    using assms(3) m by (simp add: parse_reply_def collect_messages_eq)
  then show ?thesis
    using command_result [OF assms(1,2), of cmd c keep d "[]"] by auto
qed

theorem messages_of_success_witness:
  "connection (TorControl None) = None
   \<and> take 3 (''250 OK'' @ CRLF) = ''250''
   \<and> re_250_OK_test (''250 OK'' @ CRLF)
   \<and> (\<exists>s'. run [SendCommand ''SIGNAL NEWNYM'' (Some 1) False, SocketData 0 (''250 OK'' @ CRLF),
                 SocketData 0 (''250 OK'' @ CRLF), SocketEnd 0] (TorControl None) = Inr s'
         \<and> delivered (trace s') =
             [(1, CommandArgs None (Some (Status 250 [''OK''] (''250 OK'' @ CRLF))))])"
proof -
  have t: "re_250_OK_test (''250 OK'' @ CRLF)"
    by (simp add: parse_defs)
  have ms: "map (\<lambda>l. if take 3 l = ''250'' \<and> 3 < length l \<and> l ! 3 \<noteq> CR \<and> l ! 3 \<noteq> LF
                     then drop 4 l else l)
              (filter (\<lambda>l. l \<noteq> []) (split_newline (''250 OK'' @ CRLF))) = [''OK'']"
    by (simp add: CRLF_def CR_def LF_def)
  show ?thesis
    using messages_of_success [where s = "TorControl None" and auth = "''250 OK'' @ CRLF"
        and d = "''250 OK'' @ CRLF" and cmd = "''SIGNAL NEWNYM''" and c = 1 and keep = False,
        OF closed ok_chunk t]
    by (simp only: witness_simps t ms)
qed

text \<open>
  The claim as stated fails: a line with another status code keeps its prefix. The
  specification's messages for the same text are given for comparison.
\<close>

theorem prefix_kept_counterexample:
  "delivered (trace (projr (run
        [SendCommand ''SETEVENTS CIRC'' (Some 1) True, SocketData 0 (''250 OK'' @ CRLF),
         SocketData 0 (''650 CIRC 1 LAUNCHED'' @ CRLF @ ''250 OK'' @ CRLF)] (TorControl None)))) =
       [(1, CommandArgs None (Some (Status 250 [''650 CIRC 1 LAUNCHED'', ''OK'']
              (''650 CIRC 1 LAUNCHED'' @ CRLF @ ''250 OK'' @ CRLF))))]
   \<and> spec_messages (''650 CIRC 1 LAUNCHED'' @ CRLF @ ''250 OK'' @ CRLF) = [''CIRC 1 LAUNCHED'', ''OK'']"
  by (simp add: spec_messages_def model_defs parse_defs)

section \<open>The failure object\<close>

text \<open>
  C7. For every reply chunk that is not classified as a success, the callback is called
  with an error whose text is the chunk, and with the object whose code is
  \<^verbatim>\<open>parseInt\<close> of the first three characters (\<^term>\<open>None\<close> for NaN), whose message
  is the text after the first four characters, and whose data is the whole text.
\<close>

theorem failure_payload:
  assumes "connection s = None" "take 3 auth = ''250''" "\<not> re_250_OK_test d"
  shows "\<exists>s'. run [SendCommand cmd (Some c) keep, SocketData (length (sockets s)) auth,
                   SocketData (length (sockets s)) d, SocketEnd (length (sockets s))] s = Inr s'
           \<and> delivered (trace s') = delivered (trace s) @
               [(c, CommandArgs (Some (Error d))
                      (Some (Failure (parseInt10 (take 3 d)) (drop 4 d) d)))]"
proof -
  have "parse_reply d = (Some (Error d), Failure (parseInt10 (take 3 d)) (drop 4 d) d)"
    using assms(3) by (simp add: parse_reply_def substr_0_def substr_from_def)
  then show ?thesis
    using command_result [OF assms(1,2), of cmd c keep d "[]"] by auto
qed

theorem failure_payload_witness:
  "connection (TorControl None) = None
   \<and> take 3 (''250 OK'' @ CRLF) = ''250''
   \<and> \<not> re_250_OK_test (''515 Bad authentication'' @ CRLF)
   \<and> (\<exists>s'. run [SendCommand ''GETINFO version'' (Some 1) False, SocketData 0 (''250 OK'' @ CRLF),
                 SocketData 0 (''515 Bad authentication'' @ CRLF), SocketEnd 0] (TorControl None)
            = Inr s'
         \<and> delivered (trace s') =
             [(1, CommandArgs (Some (Error (''515 Bad authentication'' @ CRLF)))
                    (Some (Failure (Some 515) (''Bad authentication'' @ CRLF)
                             (''515 Bad authentication'' @ CRLF))))])"
  using failure_payload [where s = "TorControl None" and auth = "''250 OK'' @ CRLF"
      and d = "''515 Bad authentication'' @ CRLF" and cmd = "''GETINFO version''" and c = 1
      and keep = False, OF closed ok_chunk bad_chunk(2)]
  by (simp only: witness_simps bad_chunk)

section \<open>Chunks\<close>

text \<open>
  C4 (as amended). The result handed to the callback is what \<^const>\<open>parse_reply\<close> makes
  of the first chunk that arrives after the command was written; the chunks that follow
  change nothing of it (they are only passed on as data events).
\<close>

theorem result_from_first_chunk:
  assumes "connection s = None" "take 3 auth = ''250''"
  shows "\<exists>s'. run ([SendCommand cmd (Some c) keep, SocketData (length (sockets s)) auth,
                    SocketData (length (sockets s)) d]
                   @ map (SocketData (length (sockets s))) ds
                   @ [SocketEnd (length (sockets s))]) s = Inr s'
           \<and> delivered (trace s') = delivered (trace s) @
               [(c, CommandArgs (fst (parse_reply d)) (Some (snd (parse_reply d))))]"
  using command_result [OF assms, of cmd c keep d ds] by blast

theorem result_from_first_chunk_witness:
  "connection (TorControl None) = None
   \<and> take 3 (''250 OK'' @ CRLF) = ''250''
   \<and> (\<exists>s'. run [SendCommand ''GETINFO version'' (Some 1) True, SocketData 0 (''250 OK'' @ CRLF),
                 SocketData 0 (''250-version=0.4.8'' @ CRLF), SocketData 0 (''250 OK'' @ CRLF),
                 SocketEnd 0] (TorControl None) = Inr s'
         \<and> delivered (trace s') =
             [(1, CommandArgs (Some (Error (''250-version=0.4.8'' @ CRLF)))
                    (Some (Failure (Some 250) (''version=0.4.8'' @ CRLF)
                             (''250-version=0.4.8'' @ CRLF))))])"
proof -
  have pr: "parse_reply (''250-version=0.4.8'' @ CRLF) =
              (Some (Error (''250-version=0.4.8'' @ CRLF)),
               Failure (Some 250) (''version=0.4.8'' @ CRLF) (''250-version=0.4.8'' @ CRLF))"
    by (simp add: parse_defs substr_0_def)
  have lst: "[a1, a2, a3] @ map (SocketData 0) [x] @ [a5] = [a1, a2, a3, SocketData 0 x, a5]"
    for a1 a2 a3 a5 x
    by simp
  show ?thesis
    using result_from_first_chunk [where s = "TorControl None" and auth = "''250 OK'' @ CRLF"
        and d = "''250-version=0.4.8'' @ CRLF" and ds = "[''250 OK'' @ CRLF]"
        and cmd = "''GETINFO version''" and c = 1 and keep = True, OF closed ok_chunk]
    by (simp only: witness_simps pr lst)
qed

text \<open>
  The claim as stated fails: the same reply in two chunks is reported as an error made
  from the first chunk, and in one chunk as a success.
\<close>

theorem fragmentation_counterexample:
  "delivered (trace (projr (run
        [SendCommand ''GETINFO version'' (Some 1) True, SocketData 0 (''250 OK'' @ CRLF),
         SocketData 0 (''250-version=0.4.8'' @ CRLF), SocketData 0 (''250 OK'' @ CRLF)]
        (TorControl None)))) =
       [(1, CommandArgs (Some (Error (''250-version=0.4.8'' @ CRLF)))
              (Some (Failure (Some 250) (''version=0.4.8'' @ CRLF) (''250-version=0.4.8'' @ CRLF))))]
   \<and> delivered (trace (projr (run
        [SendCommand ''GETINFO version'' (Some 1) True, SocketData 0 (''250 OK'' @ CRLF),
         SocketData 0 (''250-version=0.4.8'' @ CRLF @ ''250 OK'' @ CRLF)]
        (TorControl None)))) =
       [(1, CommandArgs None
              (Some (Status 250 [''version=0.4.8'', ''OK'']
                 (''250-version=0.4.8'' @ CRLF @ ''250 OK'' @ CRLF))))]"
  by (simp add: model_defs parse_defs)

section \<open>Closing after a command\<close>

text \<open>A command on a closed session, through authentication and reply.\<close>

lemma fresh_close_before_delivery:
  assumes "connection s = None" "take 3 auth = ''250''"
  shows "(\<exists>s'. run [SendCommand cmd (Some c) keep, SocketData (length (sockets s)) auth,
                   SocketData (length (sockets s)) d] s = Inr s'
           \<and> (if keep \<or> isPersistent s
               then connection s' = Some (length (sockets s))
                    \<and> written (sockets s' ! length (sockets s)) =
                        [authenticate_line (password (opts s)), cmd @ CRLF]
                    \<and> trace s' = trace s @
                        [EmittedData auth, EmittedData d,
                         Called c (CommandArgs (fst (parse_reply d)) (Some (snd (parse_reply d))))
                           (Some (length (sockets s)))]
               else written (sockets s' ! length (sockets s)) =
                        [authenticate_line (password (opts s)), cmd @ CRLF, ''QUIT'' @ CRLF]
                    \<and> trace s' = trace s @ [EmittedData auth, EmittedData d]
                    \<and> (\<exists>s''. step (SocketEnd (length (sockets s))) s' = Inr s''
                          \<and> connection s'' = None
                          \<and> written (sockets s'' ! length (sockets s)) =
                              written (sockets s' ! length (sockets s))
                          \<and> trace s'' = trace s' @
                              [EmittedEnd,
                               Called c (CommandArgs (fst (parse_reply d)) (Some (snd (parse_reply d))))
                                 None])))
     \<and> (\<exists>s'. run [SendCommand cmd (Some c) keep, SocketData (length (sockets s)) auth,
                   SocketEnd (length (sockets s)), SocketData (length (sockets s)) d] s = Inr s'
           \<and> written (sockets s' ! length (sockets s)) =
               [authenticate_line (password (opts s)), cmd @ CRLF]
           \<and> trace s' = trace s @
               [EmittedData auth, EmittedEnd, EmittedData d,
                Called c (CommandArgs (fst (parse_reply d)) (Some (snd (parse_reply d)))) None])"
  (is "?reply \<and> ?gone")
proof
  show ?gone
    using assms by (simp add: model_defs)
next
  show ?reply
  proof (cases "keep \<or> isPersistent s")
    case True
    from reply_kept [OF assms True, of cmd c d] show ?thesis
      using True by auto
  next
    case False
    then have nk: "\<not> keep" and np: "\<not> isPersistent s" by simp_all
    from reply_closing [OF assms nk np, of cmd c d] obtain s' where
      r: "run [SendCommand cmd (Some c) keep, SocketData (length (sockets s)) auth,
               SocketData (length (sockets s)) d] s = Inr s'"
      and l: "length (sockets s') = Suc (length (sockets s))"
      and w: "written (sockets s' ! length (sockets s)) =
               [authenticate_line (password (opts s)), cmd @ CRLF, ''QUIT'' @ CRLF]"
      and e: "end_listeners (sockets s' ! length (sockets s)) =
               [(False, PipeEndListener), (True, DisconnectEndListener (ReplyCb d (Some c)))]"
      and t: "trace s' = trace s @ [EmittedData auth, EmittedData d]"
      by blast
    have "\<exists>s''. step (SocketEnd (length (sockets s))) s' = Inr s''
            \<and> connection s'' = None
            \<and> written (sockets s'' ! length (sockets s)) = written (sockets s' ! length (sockets s))
            \<and> trace s'' = trace s' @
                [EmittedEnd,
                 Called c (CommandArgs (fst (parse_reply d)) (Some (snd (parse_reply d)))) None]"
      using l e by (simp add: model_defs)
    then show ?thesis
      using False r w t by simp
  qed
qed

text \<open>A command on a session whose connection is installed and idle.\<close>

lemma reused_close_before_delivery:
  assumes "connection s = Some h" "h < length (sockets s)"
    "data_listeners (sockets s ! h) = [(False, PipeDataListener)]"
    "end_listeners (sockets s ! h) = [(False, PipeEndListener)]"
  shows "\<exists>s'. run [SendCommand cmd (Some c) keep, SocketData h d] s = Inr s'
           \<and> (if keep \<or> isPersistent s
               then connection s' = Some h
                    \<and> written (sockets s' ! h) = written (sockets s ! h) @ [cmd @ CRLF]
                    \<and> trace s' = trace s @
                        [EmittedData d,
                         Called c (CommandArgs (fst (parse_reply d)) (Some (snd (parse_reply d))))
                           (Some h)]
               else written (sockets s' ! h) =
                      written (sockets s ! h) @ [cmd @ CRLF, ''QUIT'' @ CRLF]
                    \<and> trace s' = trace s @ [EmittedData d]
                    \<and> (\<exists>s''. step (SocketEnd h) s' = Inr s''
                          \<and> connection s'' = None
                          \<and> written (sockets s'' ! h) = written (sockets s' ! h)
                          \<and> trace s'' = trace s' @
                              [EmittedEnd,
                               Called c (CommandArgs (fst (parse_reply d)) (Some (snd (parse_reply d))))
                                 None]))"
  using assms by (simp add: model_defs)

lemma kept_session_facts:
  "connection kept_session = Some 0"
  "0 < length (sockets kept_session)"
  "data_listeners (sockets kept_session ! 0) = [(False, PipeDataListener)]"
  "end_listeners (sockets kept_session ! 0) = [(False, PipeEndListener)]"
  "\<not> isPersistent kept_session"
  "written (sockets kept_session ! 0) @ ws =
     (''AUTHENTICATE '' @ [DQUOTE, DQUOTE] @ CRLF) # (''SIGNAL NEWNYM'' @ CRLF) # ws"
  "trace kept_session @ xs =
     EmittedData (''250 OK'' @ CRLF) # EmittedData (''250 OK'' @ CRLF) #
     Called 1 (CommandArgs None (Some (Status 250 [''OK''] (''250 OK'' @ CRLF)))) (Some 0) # xs"
  by (simp_all add: kept_session_def model_defs parse_defs authenticate_line_def str_of_def
      TorControl_None_opts)

lemma persistent_session_facts:
  "isPersistent (TorControl (Some (no_options\<lparr>persistent := Some (JSBool True)\<rparr>)))"
  "authenticate_line (password (opts (TorControl (Some (no_options\<lparr>persistent := Some (JSBool True)\<rparr>))))) =
     ''AUTHENTICATE '' @ [DQUOTE, DQUOTE] @ CRLF"
  by (simp_all add: isPersistent_def TorControl_def no_options_def or_str_def or_num_def
      authenticate_line_def str_of_def)

text \<open>
  C5 (as amended). For every command that was written, on a session that was closed and
  has authenticated or on one whose connection was kept and is idle, when its reply
  chunk arrives: if \<^verbatim>\<open>keepConnection\<close> is true or the session is persistent, the
  callback is called at once, no QUIT is written and the connection stays installed.
  Otherwise QUIT is written, nothing is delivered yet, and at the end of the stream the
  connection is cleared before the callback is called, which sees no connection. When no
  connection is installed as the reply chunk arrives, the callback is called at once and
  nothing is written.
\<close>

theorem close_before_delivery:
  "(connection s = None \<and> take 3 auth = ''250'' \<longrightarrow>
     ((\<exists>s'. run [SendCommand cmd (Some c) keep, SocketData (length (sockets s)) auth,
                   SocketData (length (sockets s)) d] s = Inr s'
           \<and> (if keep \<or> isPersistent s
               then connection s' = Some (length (sockets s))
                    \<and> written (sockets s' ! length (sockets s)) =
                        [authenticate_line (password (opts s)), cmd @ CRLF]
                    \<and> trace s' = trace s @
                        [EmittedData auth, EmittedData d,
                         Called c (CommandArgs (fst (parse_reply d)) (Some (snd (parse_reply d))))
                           (Some (length (sockets s)))]
               else written (sockets s' ! length (sockets s)) =
                        [authenticate_line (password (opts s)), cmd @ CRLF, ''QUIT'' @ CRLF]
                    \<and> trace s' = trace s @ [EmittedData auth, EmittedData d]
                    \<and> (\<exists>s''. step (SocketEnd (length (sockets s))) s' = Inr s''
                          \<and> connection s'' = None
                          \<and> written (sockets s'' ! length (sockets s)) =
                              written (sockets s' ! length (sockets s))
                          \<and> trace s'' = trace s' @
                              [EmittedEnd,
                               Called c (CommandArgs (fst (parse_reply d)) (Some (snd (parse_reply d))))
                                 None])))
     \<and> (\<exists>s'. run [SendCommand cmd (Some c) keep, SocketData (length (sockets s)) auth,
                   SocketEnd (length (sockets s)), SocketData (length (sockets s)) d] s = Inr s'
           \<and> written (sockets s' ! length (sockets s)) =
               [authenticate_line (password (opts s)), cmd @ CRLF]
           \<and> trace s' = trace s @
               [EmittedData auth, EmittedEnd, EmittedData d,
                Called c (CommandArgs (fst (parse_reply d)) (Some (snd (parse_reply d)))) None])))
   \<and> (connection s = Some h \<and> h < length (sockets s)
      \<and> data_listeners (sockets s ! h) = [(False, PipeDataListener)]
      \<and> end_listeners (sockets s ! h) = [(False, PipeEndListener)] \<longrightarrow>
     (\<exists>s'. run [SendCommand cmd (Some c) keep, SocketData h d] s = Inr s'
           \<and> (if keep \<or> isPersistent s
               then connection s' = Some h
                    \<and> written (sockets s' ! h) = written (sockets s ! h) @ [cmd @ CRLF]
                    \<and> trace s' = trace s @
                        [EmittedData d,
                         Called c (CommandArgs (fst (parse_reply d)) (Some (snd (parse_reply d))))
                           (Some h)]
               else written (sockets s' ! h) =
                      written (sockets s ! h) @ [cmd @ CRLF, ''QUIT'' @ CRLF]
                    \<and> trace s' = trace s @ [EmittedData d]
                    \<and> (\<exists>s''. step (SocketEnd h) s' = Inr s''
                          \<and> connection s'' = None
                          \<and> written (sockets s'' ! h) = written (sockets s' ! h)
                          \<and> trace s'' = trace s' @
                              [EmittedEnd,
                               Called c (CommandArgs (fst (parse_reply d)) (Some (snd (parse_reply d))))
                                 None]))))"
  using fresh_close_before_delivery [of s auth cmd c keep d]
    reused_close_before_delivery [of s h cmd c keep d]
  by blast

theorem close_before_delivery_witness:
  "connection (TorControl None) = None
   \<and> take 3 (''250 OK'' @ CRLF) = ''250''
   \<and> (\<exists>s'. run [SendCommand ''SIGNAL NEWNYM'' (Some 1) False, SocketData 0 (''250 OK'' @ CRLF),
                 SocketData 0 (''250 OK'' @ CRLF)] (TorControl None) = Inr s'
         \<and> written (sockets s' ! 0) =
             [''AUTHENTICATE '' @ [DQUOTE, DQUOTE] @ CRLF, ''SIGNAL NEWNYM'' @ CRLF, ''QUIT'' @ CRLF]
         \<and> trace s' = [EmittedData (''250 OK'' @ CRLF), EmittedData (''250 OK'' @ CRLF)]
         \<and> (\<exists>s''. step (SocketEnd 0) s' = Inr s''
               \<and> connection s'' = None
               \<and> written (sockets s'' ! 0) = written (sockets s' ! 0)
               \<and> trace s'' = trace s' @
                   [EmittedEnd,
                    Called 1 (CommandArgs None (Some (Status 250 [''OK''] (''250 OK'' @ CRLF)))) None]))
   \<and> (\<exists>s'. run [SendCommand ''SIGNAL NEWNYM'' (Some 1) False, SocketData 0 (''250 OK'' @ CRLF),
                 SocketEnd 0, SocketData 0 (''250 OK'' @ CRLF)] (TorControl None) = Inr s'
         \<and> written (sockets s' ! 0) =
             [''AUTHENTICATE '' @ [DQUOTE, DQUOTE] @ CRLF, ''SIGNAL NEWNYM'' @ CRLF]
         \<and> trace s' =
             [EmittedData (''250 OK'' @ CRLF), EmittedEnd, EmittedData (''250 OK'' @ CRLF),
              Called 1 (CommandArgs None (Some (Status 250 [''OK''] (''250 OK'' @ CRLF)))) None])
   \<and> (\<exists>s'. run [SendCommand ''SIGNAL NEWNYM'' (Some 1) True, SocketData 0 (''250 OK'' @ CRLF),
                 SocketData 0 (''250 OK'' @ CRLF)] (TorControl None) = Inr s'
         \<and> connection s' = Some 0
         \<and> written (sockets s' ! 0) =
             [''AUTHENTICATE '' @ [DQUOTE, DQUOTE] @ CRLF, ''SIGNAL NEWNYM'' @ CRLF]
         \<and> trace s' =
             [EmittedData (''250 OK'' @ CRLF), EmittedData (''250 OK'' @ CRLF),
              Called 1 (CommandArgs None (Some (Status 250 [''OK''] (''250 OK'' @ CRLF)))) (Some 0)])
   \<and> (\<exists>s'. run [SendCommand ''SIGNAL NEWNYM'' (Some 1) False, SocketData 0 (''250 OK'' @ CRLF),
                 SocketData 0 (''250 OK'' @ CRLF)]
              (TorControl (Some (no_options\<lparr>persistent := Some (JSBool True)\<rparr>))) = Inr s'
         \<and> connection s' = Some 0
         \<and> written (sockets s' ! 0) =
             [''AUTHENTICATE '' @ [DQUOTE, DQUOTE] @ CRLF, ''SIGNAL NEWNYM'' @ CRLF]
         \<and> trace s' =
             [EmittedData (''250 OK'' @ CRLF), EmittedData (''250 OK'' @ CRLF),
              Called 1 (CommandArgs None (Some (Status 250 [''OK''] (''250 OK'' @ CRLF)))) (Some 0)])
   \<and> connection kept_session = Some 0
   \<and> 0 < length (sockets kept_session)
   \<and> data_listeners (sockets kept_session ! 0) = [(False, PipeDataListener)]
   \<and> end_listeners (sockets kept_session ! 0) = [(False, PipeEndListener)]
   \<and> (\<exists>s'. run [SendCommand ''SIGNAL RELOAD'' (Some 2) False, SocketData 0 (''250 OK'' @ CRLF)]
              kept_session = Inr s'
         \<and> written (sockets s' ! 0) =
             [''AUTHENTICATE '' @ [DQUOTE, DQUOTE] @ CRLF, ''SIGNAL NEWNYM'' @ CRLF,
              ''SIGNAL RELOAD'' @ CRLF, ''QUIT'' @ CRLF]
         \<and> trace s' =
             [EmittedData (''250 OK'' @ CRLF), EmittedData (''250 OK'' @ CRLF),
              Called 1 (CommandArgs None (Some (Status 250 [''OK''] (''250 OK'' @ CRLF)))) (Some 0),
              EmittedData (''250 OK'' @ CRLF)]
         \<and> (\<exists>s''. step (SocketEnd 0) s' = Inr s''
               \<and> connection s'' = None
               \<and> written (sockets s'' ! 0) = written (sockets s' ! 0)
               \<and> trace s'' = trace s' @
                   [EmittedEnd,
                    Called 2 (CommandArgs None (Some (Status 250 [''OK''] (''250 OK'' @ CRLF)))) None]))"
proof -
  have p: "\<not> isPersistent (TorControl None)"
    by (simp add: isPersistent_def TorControl_None_opts)
  note closing = close_before_delivery [where s = "TorControl None" and auth = "''250 OK'' @ CRLF"
      and d = "''250 OK'' @ CRLF" and cmd = "''SIGNAL NEWNYM''" and c = 1 and keep = False,
      THEN conjunct1, THEN mp, OF conjI [OF closed ok_chunk]]
  note kept = close_before_delivery [where s = "TorControl None" and auth = "''250 OK'' @ CRLF"
      and d = "''250 OK'' @ CRLF" and cmd = "''SIGNAL NEWNYM''" and c = 1 and keep = True,
      THEN conjunct1, THEN mp, OF conjI [OF closed ok_chunk], THEN conjunct1]
  note persistent = close_before_delivery
      [where s = "TorControl (Some (no_options\<lparr>persistent := Some (JSBool True)\<rparr>))"
      and auth = "''250 OK'' @ CRLF" and d = "''250 OK'' @ CRLF" and cmd = "''SIGNAL NEWNYM''"
      and c = 1 and keep = False,
      THEN conjunct1, THEN mp, OF conjI [OF TorControl_closed(1) ok_chunk], THEN conjunct1]
  note reused = close_before_delivery [where s = kept_session and h = 0
      and d = "''250 OK'' @ CRLF" and cmd = "''SIGNAL RELOAD''" and c = 2 and keep = False,
      THEN conjunct2, THEN mp,
      OF conjI [OF kept_session_facts(1) conjI [OF kept_session_facts(2)
        conjI [OF kept_session_facts(3) kept_session_facts(4)]]]]
  show ?thesis
    using closing kept persistent reused
    by (simp only: witness_simps p parse_reply_bare_OK kept_session_facts
        persistent_session_facts)
qed

text \<open>
  The claim as stated fails for a command whose authentication fails: on a session that
  is not persistent, with no override, the callback is called while the connection is
  installed, and no QUIT is written.
\<close>

theorem failed_open_not_closed_counterexample:
  "\<not> isPersistent (TorControl None)
   \<and> trace (projr (run
        [SendCommand ''SIGNAL NEWNYM'' (Some 1) False,
         SocketData 0 (''515 Bad authentication'' @ CRLF)] (TorControl None))) =
       [EmittedData (''515 Bad authentication'' @ CRLF),
        Called 1 (CommandArgs
          (Some (Error (''Authentication failed with message: 515 Bad authentication'' @ CRLF)))
          None) (Some 0)]
   \<and> connection (projr (run
        [SendCommand ''SIGNAL NEWNYM'' (Some 1) False,
         SocketData 0 (''515 Bad authentication'' @ CRLF)] (TorControl None))) = Some 0
   \<and> written (sockets (projr (run
        [SendCommand ''SIGNAL NEWNYM'' (Some 1) False,
         SocketData 0 (''515 Bad authentication'' @ CRLF)] (TorControl None))) ! 0) =
       [''AUTHENTICATE '' @ [DQUOTE, DQUOTE] @ CRLF]"
  by (simp add: model_defs authenticate_line_def str_of_def TorControl_None_opts)

section \<open>A failed authentication\<close>

text \<open>
  C3 (as amended). When the first chunk after AUTHENTICATE does not start with
  \<open>250\<close>, the callback of \<^verbatim>\<open>connect\<close> gets an authentication error with the
  text of the chunk, and the connection stays installed; the end of the stream clears it,
  and the next command then opens a new socket and authenticates again.
\<close>

theorem auth_failure_keeps_handle:
  assumes "connection s = None" "take 3 d \<noteq> ''250''"
  shows "\<exists>s1. run [Connect params (Some c), SocketData (length (sockets s)) d] s = Inr s1
           \<and> trace s1 = trace s @
               [EmittedData d,
                Called c (ConnectArgs (Some (Error (''Authentication failed with message: '' @ d))) None)
                  (Some (length (sockets s)))]
           \<and> connection s1 = Some (length (sockets s))
           \<and> (\<exists>s2. step (SocketEnd (length (sockets s))) s1 = Inr s2
                 \<and> connection s2 = None
                 \<and> trace s2 = trace s1 @ [EmittedEnd]
                 \<and> (\<exists>s3. step (SendCommand cmd cb keep) s2 = Inr s3
                       \<and> connection s3 = Some (Suc (length (sockets s)))
                       \<and> written (sockets s3 ! Suc (length (sockets s))) =
                           [authenticate_line (password (opts s))]))"
  using assms by (simp add: model_defs nth_append)

theorem auth_failure_keeps_handle_witness:
  "connection (TorControl None) = None
   \<and> take 3 (''515 Bad authentication'' @ CRLF) \<noteq> ''250''
   \<and> (\<exists>s1. run [Connect None (Some 1), SocketData 0 (''515 Bad authentication'' @ CRLF)]
              (TorControl None) = Inr s1
         \<and> trace s1 =
             [EmittedData (''515 Bad authentication'' @ CRLF),
              Called 1 (ConnectArgs
                (Some (Error (''Authentication failed with message: '' @
                              ''515 Bad authentication'' @ CRLF))) None) (Some 0)]
         \<and> connection s1 = Some 0
         \<and> (\<exists>s2. step (SocketEnd 0) s1 = Inr s2
               \<and> connection s2 = None
               \<and> trace s2 = trace s1 @ [EmittedEnd]
               \<and> (\<exists>s3. step (SendCommand ''SIGNAL NEWNYM'' (Some 2) False) s2 = Inr s3
                     \<and> connection s3 = Some (Suc 0)
                     \<and> written (sockets s3 ! Suc 0) = [''AUTHENTICATE '' @ [DQUOTE, DQUOTE] @ CRLF])))"
  using auth_failure_keeps_handle [where s = "TorControl None"
      and d = "''515 Bad authentication'' @ CRLF" and params = None and c = 1
      and cmd = "''SIGNAL NEWNYM''" and cb = "Some 2" and keep = False, OF closed bad_chunk(1)]
  by (simp only: witness_simps bad_chunk)

text \<open>
  The claim as stated fails: after the failed authentication the connection is still
  installed.
\<close>

theorem auth_failure_counterexample:
  "connection (projr (run
        [Connect None (Some 1), SocketData 0 (''515 Bad authentication'' @ CRLF)]
        (TorControl None))) = Some 0
   \<and> trace (projr (run
        [Connect None (Some 1), SocketData 0 (''515 Bad authentication'' @ CRLF)]
        (TorControl None))) =
       [EmittedData (''515 Bad authentication'' @ CRLF),
        Called 1 (ConnectArgs
          (Some (Error (''Authentication failed with message: 515 Bad authentication'' @ CRLF))) None)
          (Some 0)]"
  by (simp add: model_defs)

section \<open>Writing the command\<close>




end
